theory Spec2Isabelle
  imports Main
begin

section \<open>The build-dependency manifest (conanfile.py)\<close>

text \<open>
  The manifest is the class \<open>SchoolTgTtBotConan\<close>, a recipe of the Conan package manager.
  Its methods mutate the recipe object \<open>self\<close>; the model passes the object explicitly
  and returns it updated.

  The four settings the class declares (\<open>settings = "os", "arch", "compiler", "build_type"\<close>)
  are the fields of \<open>settings_t\<close>. The compiler setting has sub-settings, of which the
  recipe writes \<open>cppstd\<close>; the others (version, libcxx, ...) are kept as a list of pairs.
  A setting without a value is \<open>None\<close>.
\<close>

record compiler_settings =
  compiler_value :: "string option"
  cppstd :: "string option"
  compiler_subsettings :: "(string \<times> string) list"

record settings_t =
  os :: "string option"
  arch :: "string option"
  compiler :: compiler_settings
  build_type :: "string option"

text \<open>
  A declared requirement is the name and the version of its reference \<open>name/version\<close>
  and the traits the call passes. The only trait that matters here is \<open>override\<close>,
  Conan's mechanism to replace or pin a dependency that comes in transitively; a call
  without keyword arguments leaves it False.
\<close>

record requirement =
  req_name :: string
  req_version :: string
  override :: bool

record conanfile =
  settings :: settings_t
  declared_requires :: "requirement list"
  declared_tool_requires :: "requirement list"
  generators_run :: "string list"

text \<open>
  The calls into Conan raise \<open>ConanException\<close>; the constructors tell the causes apart.
  A raise ends the method (and Conan's run), so a method returns either the error or the
  updated recipe object.
\<close>

datatype error =
  InvalidReference string
  | DuplicatedRequirement string
  | UndefinedSetting string
  | InvalidSetting string string

text \<open>The class attribute \<open>settings\<close>.\<close>

definition settings_names :: "string list" where
  "settings_names = [''os'', ''arch'', ''compiler'', ''build_type'']"

text \<open>
  The recipe object as Conan builds it from this class for the settings \<open>st\<close> of a
  profile: the class has no \<open>requires\<close> or \<open>tool_requires\<close> attribute, so nothing is
  declared yet.
\<close>

definition fresh_recipe :: "settings_t \<Rightarrow> conanfile" where
  "fresh_recipe st =
     \<lparr>settings = st, declared_requires = [], declared_tool_requires = [], generators_run = []\<rparr>"

text \<open>
  A reference \<open>name/version[@user/channel][#revision][%timestamp]\<close> is read as Conan's
  \<open>RecipeReference.loads\<close> reads it: name and version are the two sides of the first
  slash of the part before any \<open>@\<close>, \<open>#\<close> or \<open>%\<close>, and both must be non-empty. The
  optional parts, which this recipe never writes, are cut off unread.
\<close>

definition ref_base :: "string \<Rightarrow> string" where
  "ref_base r = takeWhile (\<lambda>c. c \<noteq> CHR ''@'' \<and> c \<noteq> CHR ''#'' \<and> c \<noteq> CHR ''%'') r"

definition ref_name :: "string \<Rightarrow> string" where
  "ref_name r = takeWhile (\<lambda>c. c \<noteq> CHR ''/'') (ref_base r)"

definition ref_version :: "string \<Rightarrow> string" where
  "ref_version r = drop 1 (dropWhile (\<lambda>c. c \<noteq> CHR ''/'') (ref_base r))"

definition loads :: "string \<Rightarrow> error + (string \<times> string)" where
  "loads r =
     (if ref_name r = [] \<or> ref_version r = [] then Inl (InvalidReference r)
      else Inr (ref_name r, ref_version r))"

text \<open>
  \<open>self.requires(ref)\<close>, a method of Conan's base class \<open>ConanFile\<close> (not part of this
  repository): it reads the reference, raises "Duplicated requirement" when a requirement
  of the same name is already declared, and otherwise records the requirement after the
  ones declared so far.
\<close>

definition requires :: "string \<Rightarrow> conanfile \<Rightarrow> error + conanfile" where
  "requires r self =
     (case loads r of
        Inl e \<Rightarrow> Inl e
      | Inr (n, v) \<Rightarrow>
          if n \<in> set (map req_name (declared_requires self))
          then Inl (DuplicatedRequirement r)
          else Inr (self\<lparr>declared_requires := declared_requires self @
                 [\<lparr>req_name = n, req_version = v, override = False\<rparr>]\<rparr>))"

text \<open>
  \<^verbatim>\<open>
  def requirements(self):
      self.requires("libpqxx/7.9.0")
      self.requires("nlohmann_json/3.11.2")
      # (four comment lines about excluding libcurl; no statement)
  \<close>
\<close>

definition requirements :: "conanfile \<Rightarrow> error + conanfile" where
  "requirements self =
     (case requires ''libpqxx/7.9.0'' self of
        Inl e \<Rightarrow> Inl e
      | Inr self1 \<Rightarrow> requires ''nlohmann_json/3.11.2'' self1)"


text \<open>
  \<^verbatim>\<open>
  def generate(self):
      deps = CMakeDeps(self); deps.generate()
      tc = CMakeToolchain(self); tc.generate()
  \<close>
  The two generators write files for CMake; the model records which ran, in order.
\<close>

definition generate :: "conanfile \<Rightarrow> conanfile" where
  "generate self = self\<lparr>generators_run := generators_run self @ [''CMakeDeps'', ''CMakeToolchain'']\<rparr>"

text \<open>
  \<^verbatim>\<open>
  def build_requirements(self):
      pass
  \<close>
\<close>

definition build_requirements :: "conanfile \<Rightarrow> conanfile" where
  "build_requirements self = self"

text \<open>The two requirements the recipe writes, as Conan records them.\<close>

definition libpqxx_req :: requirement where
  "libpqxx_req = \<lparr>req_name = ''libpqxx'', req_version = ''7.9.0'', override = False\<rparr>"

definition nlohmann_json_req :: requirement where
  "nlohmann_json_req = \<lparr>req_name = ''nlohmann_json'', req_version = ''3.11.2'', override = False\<rparr>"

text \<open>
  Three settings of a profile, for the examples: one without a compiler, one with gcc,
  and one with qcc, for which Conan's table lists no \<open>cppstd\<close> value beyond 17.
\<close>

definition settings_no_compiler :: settings_t where
  "settings_no_compiler =
     \<lparr>os = Some ''Linux'', arch = Some ''x86_64'',
      compiler = \<lparr>compiler_value = None, cppstd = None, compiler_subsettings = []\<rparr>,
      build_type = Some ''Release''\<rparr>"



section \<open>Properties of the manifest\<close>

lemma loads_libpqxx: "loads ''libpqxx/7.9.0'' = Inr (''libpqxx'', ''7.9.0'')"
  by (simp add: loads_def ref_name_def ref_version_def ref_base_def)

lemma loads_json: "loads ''nlohmann_json/3.11.2'' = Inr (''nlohmann_json'', ''3.11.2'')"
  by (simp add: loads_def ref_name_def ref_version_def ref_base_def)

lemma requires_libpqxx:
  "requires ''libpqxx/7.9.0'' self =
     (if ''libpqxx'' \<in> set (map req_name (declared_requires self))
      then Inl (DuplicatedRequirement ''libpqxx/7.9.0'')
      else Inr (self\<lparr>declared_requires := declared_requires self @ [libpqxx_req]\<rparr>))"
  by (simp add: requires_def loads_libpqxx libpqxx_req_def)

lemma requires_json:
  "requires ''nlohmann_json/3.11.2'' self =
     (if ''nlohmann_json'' \<in> set (map req_name (declared_requires self))
      then Inl (DuplicatedRequirement ''nlohmann_json/3.11.2'')
      else Inr (self\<lparr>declared_requires := declared_requires self @ [nlohmann_json_req]\<rparr>))"
  by (simp add: requires_def loads_json nlohmann_json_req_def)

lemma requirements_cases:
  "requirements self =
     (if ''libpqxx'' \<in> set (map req_name (declared_requires self))
      then Inl (DuplicatedRequirement ''libpqxx/7.9.0'')
      else if ''nlohmann_json'' \<in> set (map req_name (declared_requires self))
      then Inl (DuplicatedRequirement ''nlohmann_json/3.11.2'')
      else Inr (self\<lparr>declared_requires :=
                  declared_requires self @ [libpqxx_req, nlohmann_json_req]\<rparr>))"
  by (simp add: requirements_def requires_libpqxx requires_json libpqxx_req_def)






text \<open>
  Claim C9. \<open>requirements\<close> declares exactly two dependencies, libpqxx 7.9.0 and then
  nlohmann_json 3.11.2. For every recipe object: when it declares neither name, the
  declared requirements grow by these two, in this order, neither an override and
  neither named libcurl, and nothing else of the object changes; when it already
  declares one of the names, the call for that name raises "Duplicated requirement".
  On the object Conan builds from the class, for every settings, the declared
  requirements are then exactly these two. The comments about excluding libcurl
  correspond to no effect.
\<close>

theorem requirements_exactly_two:
  "requirements self =
     (if ''libpqxx'' \<in> set (map req_name (declared_requires self))
      then Inl (DuplicatedRequirement ''libpqxx/7.9.0'')
      else if ''nlohmann_json'' \<in> set (map req_name (declared_requires self))
      then Inl (DuplicatedRequirement ''nlohmann_json/3.11.2'')
      else Inr (self\<lparr>declared_requires := declared_requires self @
        [\<lparr>req_name = ''libpqxx'', req_version = ''7.9.0'', override = False\<rparr>,
         \<lparr>req_name = ''nlohmann_json'', req_version = ''3.11.2'', override = False\<rparr>]\<rparr>))
   \<and> requirements (fresh_recipe st) =
       Inr ((fresh_recipe st)\<lparr>declared_requires :=
        [\<lparr>req_name = ''libpqxx'', req_version = ''7.9.0'', override = False\<rparr>,
         \<lparr>req_name = ''nlohmann_json'', req_version = ''3.11.2'', override = False\<rparr>]\<rparr>)
   \<and> filter (\<lambda>q. override q \<or> req_name q = ''libcurl'')
        [\<lparr>req_name = ''libpqxx'', req_version = ''7.9.0'', override = False\<rparr>,
         \<lparr>req_name = ''nlohmann_json'', req_version = ''3.11.2'', override = False\<rparr>] = []"
  by (simp add: requirements_cases libpqxx_req_def nlohmann_json_req_def fresh_recipe_def)

theorem requirements_exactly_two_witness:
  "map req_name (declared_requires (fresh_recipe settings_no_compiler)) = []
   \<and> requirements (fresh_recipe settings_no_compiler) =
       Inr ((fresh_recipe settings_no_compiler)\<lparr>declared_requires :=
        [\<lparr>req_name = ''libpqxx'', req_version = ''7.9.0'', override = False\<rparr>,
         \<lparr>req_name = ''nlohmann_json'', req_version = ''3.11.2'', override = False\<rparr>]\<rparr>)
   \<and> requirements ((fresh_recipe settings_no_compiler)\<lparr>declared_requires :=
         [\<lparr>req_name = ''nlohmann_json'', req_version = ''3.10.0'', override = False\<rparr>]\<rparr>)
       = Inl (DuplicatedRequirement ''nlohmann_json/3.11.2'')"
  using requirements_exactly_two [of "fresh_recipe settings_no_compiler" settings_no_compiler]
    requirements_exactly_two [of "(fresh_recipe settings_no_compiler)\<lparr>declared_requires :=
         [\<lparr>req_name = ''nlohmann_json'', req_version = ''3.10.0'', override = False\<rparr>]\<rparr>"
         settings_no_compiler]
  by (simp add: fresh_recipe_def)

text \<open>
  Claim C10. \<open>build_requirements\<close> declares nothing: for every recipe object it returns
  the object as it was, so the declared requirements, the tool requirements, the settings
  and the rest of the state are unchanged.
\<close>

theorem build_requirements_noop:
  "build_requirements self = self
   \<and> declared_tool_requires (build_requirements self) = declared_tool_requires self
   \<and> declared_requires (build_requirements self) = declared_requires self
   \<and> settings (build_requirements self) = settings self"
  by (simp add: build_requirements_def)

end
